theory Spec2Isabelle
  imports Complex_Main
begin

section \<open>The batch loader: readiness check, job submission, job polling\<close>

text \<open>
  A shallow embedding of \<^verbatim>\<open>bigquery_etl/load/load_data_from_file.py\<close>. The module is
  Python 2 (the repository's other scripts use print statements and urllib2, and the module
  has no \<^verbatim>\<open>from __future__ import division\<close>), so \<^verbatim>\<open>/\<close> on two ints is floor
  division.

  The collaborators (object storage, the warehouse job service, the uuid generator, the
  schema file, \<^verbatim>\<open>json.dumps\<close>) are an environment of answers; what the program
  does to them (calls, sleeps, prints) is appended to a trace in an explicit world state.
  An exception is the \<open>Inl\<close> branch of the result.
\<close>

subsection \<open>Data\<close>

datatype json =
    JNull
  | JBool bool
  | JNum int
  | JStr string
  | JArr "json list"
  | JObj "(string \<times> json) list"

text \<open>The exceptions the module can end with. \<open>RuntimeError\<close> carries its argument, a
  string (\<open>JStr\<close>) or the service's own error object. \<open>ExternalError\<close> is an exception
  raised inside a collaborator (reading the schema file, the job-creation call).\<close>

datatype error =
    RuntimeError json
  | ValueError string
  | IndexError
  | KeyError string
  | ExternalError string

text \<open>The dict literal \<^verbatim>\<open>job_data\<close> of \<^verbatim>\<open>load_table\<close>, one record per nested dict.\<close>

record job_reference =
  ref_projectId :: string
  ref_job_id :: string

record destination_table =
  dest_projectId :: string
  dest_datasetId :: string
  dest_tableId :: string

record load_configuration =
  sourceFormat :: string
  sourceUris :: "string list"
  schema_fields :: json
  destinationTable :: destination_table
  ignoreUnknownValues :: bool
  createDisposition :: string
  writeDisposition :: string

record job_data =
  jobReference :: job_reference
  configuration_load :: load_configuration

text \<open>What \<^verbatim>\<open>poll_job\<close> reads of the job the service returned:
  \<^verbatim>\<open>job['jobReference']['projectId']\<close> and \<^verbatim>\<open>job['jobReference']['jobId']\<close>.\<close>

record job =
  job_projectId :: string
  job_jobId :: string

text \<open>The dict \<^verbatim>\<open>result['status']\<close> of one status response; a key that is absent is
  \<open>None\<close>.\<close>

record job_status =
  errors :: "json option"
  state :: "string option"
  errorResult :: "json option"

datatype event =
    GetCredentials
  | StorageClient string
  | GetBucket string
  | Sleep nat
  | ListBlobs string string
  | BuildService
  | ReadSchema string
  | JobsInsert string job_data int
  | JobsGet string string int
  | Print string

text \<open>The collaborators. \<open>list_blobs k\<close> is the content of the \<open>k\<close>-th listing the
  process asks for (counted from 0), \<open>jobs_get k\<close> the status dict of the \<open>k\<close>-th status
  response, \<open>uuid4 k\<close> the string of the \<open>k\<close>-th UUID drawn; \<open>json_dumps\<close> is
  \<^verbatim>\<open>json.dumps(_, indent=4)\<close>.\<close>

record env =
  list_blobs :: "nat \<Rightarrow> string list"
  uuid4 :: "nat \<Rightarrow> string"
  read_schema :: "string \<Rightarrow> error + json"
  jobs_insert :: "job_data \<Rightarrow> error + job"
  jobs_get :: "nat \<Rightarrow> job_status"
  json_dumps :: "json \<Rightarrow> string"

record world =
  n_list :: nat
  n_get :: nat
  n_uuid :: nat
  trace :: "event list"

definition emit :: "event \<Rightarrow> world \<Rightarrow> world" where
  "emit e w = w\<lparr>trace := trace w @ [e]\<rparr>"

subsection \<open>Python's string operations\<close>

text \<open>\<^verbatim>\<open>s.split(c)\<close> for a one-character separator: the empty string gives one empty
  piece.\<close>

fun py_split :: "char \<Rightarrow> string \<Rightarrow> string list" where
  "py_split c [] = [[]]"
| "py_split c (x # xs) =
     (if x = c then [] # py_split c xs
      else (case py_split c xs of
              [] \<Rightarrow> [[x]]
            | p # ps \<Rightarrow> (x # p) # ps))"

text \<open>\<^verbatim>\<open>sep.join(ps)\<close>.\<close>

fun py_join :: "string \<Rightarrow> string list \<Rightarrow> string" where
  "py_join sep [] = []"
| "py_join sep [p] = p"
| "py_join sep (p # q # ps) = p @ sep @ py_join sep (q # ps)"

text \<open>\<^verbatim>\<open>'%d' % n\<close> for an int.\<close>

function str_nat :: "nat \<Rightarrow> string" where
  "str_nat n =
     (if n < 10 then [''0123456789'' ! n]
      else str_nat (n div 10) @ [''0123456789'' ! (n mod 10)])"
  by pat_completeness auto
termination
  by (relation "measure id") auto

definition fmt_d :: "int \<Rightarrow> string" where
  "fmt_d i = (if i < 0 then CHR ''-'' # str_nat (nat (- i)) else str_nat (nat i))"

subsection \<open>The readiness check\<close>

text \<open>\<^verbatim>\<open>1 + (int(ceil(check_count / 10)))\<close>: the quotient is Python 2's floor division
  of two ints, \<^verbatim>\<open>ceil\<close> turns it into a float of the same value, \<^verbatim>\<open>int\<close> back.\<close>

definition sleep_secs :: "nat \<Rightarrow> nat" where
  "sleep_secs check_count = 1 + nat \<lceil>real (check_count div 10)\<rceil>"

text \<open>The \<^verbatim>\<open>for _ in bucket_iter: cur_count += 1\<close> loop.\<close>

definition count_blobs :: "string list \<Rightarrow> nat" where
  "count_blobs bucket_iter = fold (\<lambda>_ cur_count. cur_count + 1) bucket_iter 0"

definition timeout_message :: "int \<Rightarrow> nat \<Rightarrow> string \<Rightarrow> string" where
  "timeout_message batch_count cur_count data_path =
     ''waited 40 tries for all the etl files to be present.  expected '' @ fmt_d batch_count
       @ '', found '' @ fmt_d (int cur_count) @ '' at '' @ data_path"

text \<open>The \<^verbatim>\<open>while batch_count != cur_count\<close> loop of \<^verbatim>\<open>__check_contents\<close>. Nothing in
  the loop bounds \<open>check_count\<close> from above once it is past 40, so the loop is a partial
  function: \<open>None\<close> is "does not return".\<close>

partial_function (option) check_loop ::
  "env \<Rightarrow> string \<Rightarrow> string \<Rightarrow> string \<Rightarrow> int \<Rightarrow> nat \<Rightarrow> nat \<Rightarrow> world
    \<Rightarrow> ((error + unit) \<times> world) option" where
  "check_loop env data_path bucket_name prefix batch_count cur_count check_count w =
     (if batch_count \<noteq> int cur_count then
        (let w1 = emit (Sleep (sleep_secs check_count)) w;
             bucket_iter = list_blobs env (n_list w1);
             w2 = (emit (ListBlobs bucket_name prefix) w1)\<lparr>n_list := n_list w1 + 1\<rparr>;
             cur_count' = count_blobs bucket_iter
         in if 40 = check_count
            then Some (Inl (ValueError (timeout_message batch_count cur_count' data_path)), w2)
            else check_loop env data_path bucket_name prefix batch_count cur_count'
                   (check_count + 1) w2)
      else Some (Inr (), w))"

declare check_loop.simps [code]

text \<open>\<^verbatim>\<open>__check_contents\<close>. \<^verbatim>\<open>data_path.split('/')[2]\<close> raises IndexError on a path
  of fewer than three pieces; the slice \<^verbatim>\<open>[3:-1]\<close> never raises.\<close>

definition check_contents ::
  "env \<Rightarrow> string \<Rightarrow> string \<Rightarrow> int \<Rightarrow> world \<Rightarrow> ((error + unit) \<times> world) option" where
  "check_contents env data_path project_id batch_count w =
     (let w1 = emit (StorageClient project_id) w;
          parts = py_split CHR ''/'' data_path
      in if length parts < 3 then Some (Inl IndexError, w1)
         else
           (let bucket_name = parts ! 2;
                prefix = py_join ''/'' (drop 3 (butlast parts));
                w2 = emit (GetBucket bucket_name) w1
            in check_loop env data_path bucket_name prefix batch_count 0 0 w2))"

subsection \<open>Job submission\<close>

definition load_table ::
  "env \<Rightarrow> string \<Rightarrow> string \<Rightarrow> string \<Rightarrow> json \<Rightarrow> string \<Rightarrow> string \<Rightarrow> int \<Rightarrow> string \<Rightarrow> world
    \<Rightarrow> (error + job) \<times> world" where
  "load_table env project_id dataset_id table_name source_schema source_path source_format
       num_retries write_disposition w =
     (let body =
            \<lparr> jobReference =
                \<lparr> ref_projectId = project_id,
                  ref_job_id = uuid4 env (n_uuid w) \<rparr>,
              configuration_load =
                \<lparr> sourceFormat = source_format,
                  sourceUris = [source_path],
                  schema_fields = source_schema,
                  destinationTable =
                    \<lparr> dest_projectId = project_id,
                      dest_datasetId = dataset_id,
                      dest_tableId = table_name \<rparr>,
                  ignoreUnknownValues = True,
                  createDisposition = ''CREATE_IF_NEEDED'',
                  writeDisposition = write_disposition \<rparr> \<rparr>;
          w1 = w\<lparr>n_uuid := n_uuid w + 1\<rparr>;
          w2 = emit (JobsInsert project_id body num_retries) w1
      in (jobs_insert env body, w2))"

subsection \<open>Job polling\<close>

text \<open>The \<^verbatim>\<open>while True\<close> loop of \<^verbatim>\<open>poll_job\<close>: it has no bound, so it is a partial
  function.\<close>

partial_function (option) poll_loop ::
  "env \<Rightarrow> job \<Rightarrow> world \<Rightarrow> ((error + unit) \<times> world) option" where
  "poll_loop env j w =
     (let status = jobs_get env (n_get w);
          w1 = (emit (JobsGet (job_projectId j) (job_jobId j) 2) w)\<lparr>n_get := n_get w + 1\<rparr>
      in case errors status of
           Some errs \<Rightarrow>
             Some (Inl (RuntimeError (JStr (json_dumps env errs))),
                   emit (Print ''Error loading table:'') w1)
         | None \<Rightarrow>
             (case state status of
                None \<Rightarrow> Some (Inl (KeyError ''state''), w1)
              | Some s \<Rightarrow>
                  if s = ''DONE'' then
                    (case errorResult status of
                       Some p \<Rightarrow> Some (Inl (RuntimeError p), w1)
                     | None \<Rightarrow> Some (Inr (), emit (Print ''Job complete.'') w1))
                  else poll_loop env j (emit (Sleep 1) w1)))"

declare poll_loop.simps [code]

definition poll_job :: "env \<Rightarrow> job \<Rightarrow> world \<Rightarrow> ((error + unit) \<times> world) option" where
  "poll_job env j w = poll_loop env j (emit (Print ''Waiting for job to finish...'') w)"

subsection \<open>The whole run\<close>

definition run ::
  "env \<Rightarrow> string \<Rightarrow> int \<Rightarrow> string \<Rightarrow> string \<Rightarrow> string \<Rightarrow> string \<Rightarrow> string \<Rightarrow> string \<Rightarrow> int \<Rightarrow> int
    \<Rightarrow> world \<Rightarrow> ((error + unit) \<times> world) option" where
  "run env project_id batch_count dataset_id table_name schema_file data_path source_format
       write_disposition num_retries poll_interval w =
     (case check_contents env data_path project_id batch_count (emit GetCredentials w) of
        None \<Rightarrow> None
      | Some (Inl e, w1) \<Rightarrow> Some (Inl e, w1)
      | Some (Inr _, w1) \<Rightarrow>
          (let w2 = emit (ReadSchema schema_file) (emit BuildService w1)
           in case read_schema env schema_file of
                Inl e \<Rightarrow> Some (Inl e, w2)
              | Inr schema \<Rightarrow>
                  (case load_table env project_id dataset_id table_name schema data_path
                          source_format num_retries write_disposition w2 of
                     (Inl e, w3) \<Rightarrow> Some (Inl e, w3)
                   | (Inr j, w3) \<Rightarrow> poll_job env j w3)))"

subsection \<open>Repeated submission calls\<close>



subsection \<open>Reading a trace\<close>



text \<open>The sleep durations in a trace, in order.\<close>

fun sleeps :: "event list \<Rightarrow> nat list" where
  "sleeps [] = []"
| "sleeps (Sleep d # es) = d # sleeps es"
| "sleeps (e # es) = sleeps es"

text \<open>What \<open>n\<close> rounds of the readiness loop do, the first with \<open>check_count = c\<close>:
  each round sleeps, then lists.\<close>

fun attempts_trace :: "string \<Rightarrow> string \<Rightarrow> nat \<Rightarrow> nat \<Rightarrow> event list" where
  "attempts_trace b p c 0 = []"
| "attempts_trace b p c (Suc n) =
     Sleep (sleep_secs c) # ListBlobs b p # attempts_trace b p (Suc c) n"

definition after_attempts :: "string \<Rightarrow> string \<Rightarrow> nat \<Rightarrow> nat \<Rightarrow> world \<Rightarrow> world" where
  "after_attempts b p c n w =
     w\<lparr>n_list := n_list w + n, trace := trace w @ attempts_trace b p c n\<rparr>"

text \<open>A status that keeps the poller going: no \<^verbatim>\<open>errors\<close> key, and a state other than
  DONE.\<close>

definition still_running :: "job_status \<Rightarrow> bool" where
  "still_running st =
     (errors st = None \<and> (case state st of None \<Rightarrow> False | Some s \<Rightarrow> s \<noteq> ''DONE''))"

text \<open>What \<open>n\<close> rounds of the polling loop on running statuses do: each round asks for the
  status, then sleeps one second.\<close>

fun polls_trace :: "job \<Rightarrow> nat \<Rightarrow> event list" where
  "polls_trace j 0 = []"
| "polls_trace j (Suc n) =
     JobsGet (job_projectId j) (job_jobId j) 2 # Sleep 1 # polls_trace j n"

definition after_polls :: "job \<Rightarrow> nat \<Rightarrow> world \<Rightarrow> world" where
  "after_polls j n w = w\<lparr>n_get := n_get w + n, trace := trace w @ polls_trace j n\<rparr>"

subsection \<open>Concrete collaborators\<close>

text \<open>A process that has done nothing yet, and an environment built from a listing stub and a
  status stub; the other collaborators answer the same way every time.\<close>

definition world0 :: world where
  "world0 = \<lparr>n_list = 0, n_get = 0, n_uuid = 0, trace = []\<rparr>"

definition stub_env :: "(nat \<Rightarrow> string list) \<Rightarrow> (nat \<Rightarrow> job_status) \<Rightarrow> env" where
  "stub_env listing statuses =
     \<lparr> list_blobs = listing,
       uuid4 = (\<lambda>k. replicate (Suc k) CHR ''a''),
       read_schema = (\<lambda>schema_file. Inr (JArr [])),
       jobs_insert = (\<lambda>body. Inr \<lparr>job_projectId = ''p'', job_jobId = ''j''\<rparr>),
       jobs_get = statuses,
       json_dumps = (\<lambda>v. if v = JArr [] then ''[]'' else ''...'') \<rparr>"

definition running :: job_status where
  "running = \<lparr>errors = None, state = Some ''RUNNING'', errorResult = None\<rparr>"

definition done_success :: job_status where
  "done_success = \<lparr>errors = None, state = Some ''DONE'', errorResult = None\<rparr>"

definition done_error_with_errors :: job_status where
  "done_error_with_errors =
     \<lparr>errors = Some (JArr []), state = Some ''DONE'',
      errorResult = Some (JObj [(''reason'', JStr ''invalid'')])\<rparr>"

definition done_error :: job_status where
  "done_error =
     \<lparr>errors = None, state = Some ''DONE'',
      errorResult = Some (JObj [(''reason'', JStr ''invalid'')])\<rparr>"

definition errors_first :: job_status where
  "errors_first =
     \<lparr>errors = Some (JArr []), state = Some ''RUNNING'', errorResult = None\<rparr>"

text \<open>Listing stubs: three objects on the 40th listing only; one object on every listing.\<close>

definition late_listing :: "nat \<Rightarrow> string list" where
  "late_listing k =
     (if k = 39 then [''part-0.json'', ''part-1.json'', ''part-2.json''] else [])"

definition one_blob_listing :: "nat \<Rightarrow> string list" where
  "one_blob_listing k = [''part-0.json'']"

text \<open>Status stubs.\<close>

definition two_running_then_done :: "nat \<Rightarrow> job_status" where
  "two_running_then_done k = (if k < 2 then running else done_success)"

definition running_then_failed :: "nat \<Rightarrow> job_status" where
  "running_then_failed k = (if k < 1 then running else done_error)"

definition running_then_failed_with_errors :: "nat \<Rightarrow> job_status" where
  "running_then_failed_with_errors k = (if k < 1 then running else done_error_with_errors)"

definition errors_at_once :: "nat \<Rightarrow> job_status" where
  "errors_at_once k = errors_first"

definition the_job :: job where
  "the_job = \<lparr>job_projectId = ''p'', job_jobId = ''j''\<rparr>"

definition the_path :: string where
  "the_path = ''gs://bucket/etl/part.json''"

declare str_nat.simps [simp del]

section \<open>Properties\<close>

subsection \<open>Python helpers\<close>

lemma sleep_secs_eq: "sleep_secs c = 1 + c div 10"
  by (simp add: sleep_secs_def)

lemma count_blobs_length: "count_blobs xs = length xs"
proof -
  have "fold (\<lambda>_ c. c + 1) xs k = k + length xs" for k :: nat
    by (induction xs arbitrary: k) simp_all
  then show ?thesis by (simp add: count_blobs_def)
qed

lemma emit_fields:
  "n_list (emit e w) = n_list w"
  "n_get (emit e w) = n_get w"
  "n_uuid (emit e w) = n_uuid w"
  "trace (emit e w) = trace w @ [e]"
  by (simp_all add: emit_def)

subsection \<open>The readiness loop, round by round\<close>

lemma after_attempts_0: "after_attempts b p c 0 w = w"
  by (simp add: after_attempts_def)

lemma after_attempts_Suc:
  "after_attempts b p (Suc c) n
     ((emit (ListBlobs b p) (emit (Sleep (sleep_secs c)) w))\<lparr>n_list := Suc (n_list w)\<rparr>)
   = after_attempts b p c (Suc n) w"
  by (simp add: after_attempts_def emit_def)

lemma n_list_round:
  "n_list ((emit (ListBlobs b p) (emit (Sleep d) w))\<lparr>n_list := Suc (n_list w)\<rparr>)
     = Suc (n_list w)"
  by (simp add: emit_def)

lemma check_loop_stop:
  "batch_count = int cur_count \<Longrightarrow>
   check_loop env dp b p batch_count cur_count c w = Some (Inr (), w)"
  by (subst check_loop.simps) simp

lemma check_loop_cap:
  "batch_count \<noteq> int cur_count \<Longrightarrow>
   check_loop env dp b p batch_count cur_count 40 w =
     Some (Inl (ValueError
                 (timeout_message batch_count (length (list_blobs env (n_list w))) dp)),
           after_attempts b p 40 1 w)"
  by (subst check_loop.simps) (simp add: Let_def emit_def after_attempts_def count_blobs_length)

lemma check_loop_step:
  "batch_count \<noteq> int cur_count \<Longrightarrow> c \<noteq> 40 \<Longrightarrow>
   check_loop env dp b p batch_count cur_count c w =
     check_loop env dp b p batch_count (length (list_blobs env (n_list w))) (Suc c)
       ((emit (ListBlobs b p) (emit (Sleep (sleep_secs c)) w))\<lparr>n_list := Suc (n_list w)\<rparr>)"
  by (subst check_loop.simps) (simp add: Let_def emit_def count_blobs_length)

text \<open>The first listing with the expected count, \<open>i\<close> rounds ahead and before
  \<open>check_count\<close> reaches 40, ends the loop normally.\<close>

lemma check_loop_match:
  "batch_count \<noteq> int cur_count \<Longrightarrow> c + i < 40 \<Longrightarrow>
   \<forall>k<i. int (length (list_blobs env (n_list w + k))) \<noteq> batch_count \<Longrightarrow>
   int (length (list_blobs env (n_list w + i))) = batch_count \<Longrightarrow>
   check_loop env dp b p batch_count cur_count c w
     = Some (Inr (), after_attempts b p c (Suc i) w)"
proof (induction i arbitrary: cur_count c w)
  case 0
  then show ?case
    by (simp add: check_loop_step check_loop_stop after_attempts_Suc [symmetric]
          after_attempts_0)
next
  case (Suc i)
  let ?w = "(emit (ListBlobs b p) (emit (Sleep (sleep_secs c)) w))\<lparr>n_list := Suc (n_list w)\<rparr>"
  let ?cur = "length (list_blobs env (n_list w))"
  from Suc.prems have ne: "batch_count \<noteq> int ?cur" by force
  have "check_loop env dp b p batch_count ?cur (Suc c) ?w
          = Some (Inr (), after_attempts b p (Suc c) (Suc i) ?w)"
  proof (rule Suc.IH [OF ne])
    show "Suc c + i < 40" using Suc.prems by simp
    show "\<forall>k<i. int (length (list_blobs env (n_list ?w + k))) \<noteq> batch_count"
      using Suc.prems(3) by (auto simp: emit_def dest: spec [where x = "Suc k" for k])
    show "int (length (list_blobs env (n_list ?w + i))) = batch_count"
      using Suc.prems(4) by (simp add: emit_def)
  qed
  moreover have "c \<noteq> 40" using Suc.prems by simp
  ultimately show ?case
    using Suc.prems(1) by (simp add: check_loop_step after_attempts_Suc)
qed

text \<open>With no such listing before \<open>check_count\<close> reaches 40, the round with
  \<open>check_count = 40\<close> lists once more and raises.\<close>

lemma check_loop_never:
  "batch_count \<noteq> int cur_count \<Longrightarrow> c + i = 40 \<Longrightarrow>
   \<forall>k<i. int (length (list_blobs env (n_list w + k))) \<noteq> batch_count \<Longrightarrow>
   check_loop env dp b p batch_count cur_count c w =
     Some (Inl (ValueError
                 (timeout_message batch_count (length (list_blobs env (n_list w + i))) dp)),
           after_attempts b p c (Suc i) w)"
proof (induction i arbitrary: cur_count c w)
  case 0
  then show ?case
    by (simp add: check_loop_cap)
next
  case (Suc i)
  let ?w = "(emit (ListBlobs b p) (emit (Sleep (sleep_secs c)) w))\<lparr>n_list := Suc (n_list w)\<rparr>"
  let ?cur = "length (list_blobs env (n_list w))"
  from Suc.prems have ne: "batch_count \<noteq> int ?cur" by force
  have "check_loop env dp b p batch_count ?cur (Suc c) ?w
          = Some (Inl (ValueError (timeout_message batch_count
                (length (list_blobs env (n_list ?w + i))) dp)),
              after_attempts b p (Suc c) (Suc i) ?w)"
  proof (rule Suc.IH [OF ne])
    show "Suc c + i = 40" using Suc.prems by simp
    show "\<forall>k<i. int (length (list_blobs env (n_list ?w + k))) \<noteq> batch_count"
      using Suc.prems(3) by (auto simp: emit_def dest: spec [where x = "Suc k" for k])
  qed
  moreover have "c \<noteq> 40" using Suc.prems by simp
  ultimately show ?case
    using Suc.prems(1) by (simp add: check_loop_step after_attempts_Suc)
qed

subsection \<open>The readiness check as a whole\<close>

lemma check_contents_wf:
  "3 \<le> length (py_split CHR ''/'' dp) \<Longrightarrow>
   check_contents env dp pid N w =
     check_loop env dp (py_split CHR ''/'' dp ! 2)
       (py_join ''/'' (drop 3 (butlast (py_split CHR ''/'' dp)))) N 0 0
       (emit (GetBucket (py_split CHR ''/'' dp ! 2)) (emit (StorageClient pid) w))"
  by (simp add: check_contents_def Let_def)


lemma attempts_trace_concat:
  "attempts_trace b p c n =
     concat (map (\<lambda>i. [Sleep (1 + i div 10), ListBlobs b p]) [c..<c + n])"
proof (induction n arbitrary: c)
  case 0
  show ?case by simp
next
  case (Suc n)
  have "[c..<c + Suc n] = c # [Suc c..<Suc c + n]"
    by (simp add: upt_conv_Cons)
  then show ?case
    by (simp add: Suc.IH sleep_secs_eq)
qed


text \<open>Entered with \<open>check_count \<le> 40\<close>, the loop returns, after at most
  \<open>41 - check_count\<close> rounds.\<close>

lemma check_loop_total:
  "c \<le> 40 \<Longrightarrow>
   \<exists>r n. n \<le> 41 - c \<and>
     check_loop env dp b p batch_count cur_count c w = Some (r, after_attempts b p c n w)"
proof (induction k \<equiv> "40 - c" arbitrary: c cur_count w)
  case 0
  then have c: "c = 40" by simp
  show ?case
  proof (cases "batch_count = int cur_count")
    case True
    then have "check_loop env dp b p batch_count cur_count c w
                 = Some (Inr (), after_attempts b p c 0 w)"
      by (simp add: check_loop_stop after_attempts_0)
    then show ?thesis by blast
  next
    case False
    then have "\<exists>r. check_loop env dp b p batch_count cur_count c w
                 = Some (r, after_attempts b p c 1 w)"
      by (simp add: c check_loop_cap)
    then show ?thesis using c by force
  qed
next
  case (Suc k)
  then have c: "c < 40" by simp
  show ?case
  proof (cases "batch_count = int cur_count")
    case True
    then have "check_loop env dp b p batch_count cur_count c w
                 = Some (Inr (), after_attempts b p c 0 w)"
      by (simp add: check_loop_stop after_attempts_0)
    then show ?thesis by blast
  next
    case False
    let ?w = "(emit (ListBlobs b p) (emit (Sleep (sleep_secs c)) w))\<lparr>n_list := Suc (n_list w)\<rparr>"
    let ?cur = "length (list_blobs env (n_list w))"
    have "k = 40 - Suc c" "Suc c \<le> 40" using Suc.hyps(2) c by simp_all
    from Suc.hyps(1) [OF this]
    obtain r n where n: "n \<le> 41 - Suc c"
      and r: "check_loop env dp b p batch_count ?cur (Suc c) ?w
                = Some (r, after_attempts b p (Suc c) n ?w)"
      by blast
    have "check_loop env dp b p batch_count cur_count c w
            = Some (r, after_attempts b p c (Suc n) w)"
      using False c r by (simp add: check_loop_step after_attempts_Suc)
    moreover have "Suc n \<le> 41 - c" using n c by simp
    ultimately show ?thesis by blast
  qed
qed

lemma check_contents_shape:
  assumes "3 \<le> length (py_split CHR ''/'' dp)"
  shows "\<exists>r n. n \<le> 41 \<and>
     check_contents env dp pid N w =
       Some (r, after_attempts (py_split CHR ''/'' dp ! 2)
                  (py_join ''/'' (drop 3 (butlast (py_split CHR ''/'' dp)))) 0 n
                  (emit (GetBucket (py_split CHR ''/'' dp ! 2)) (emit (StorageClient pid) w)))"
  using check_loop_total [of 0] assms by (simp add: check_contents_wf)


text \<open>The first listing with the expected count, among the first 40 listings.\<close>

lemma check_contents_match:
  assumes "3 \<le> length (py_split CHR ''/'' dp)"
    and "N \<noteq> 0"
    and "i < 40"
    and "\<forall>k<i. int (length (list_blobs env (n_list w + k))) \<noteq> N"
    and "int (length (list_blobs env (n_list w + i))) = N"
  shows "check_contents env dp pid N w =
       Some (Inr (), after_attempts (py_split CHR ''/'' dp ! 2)
                  (py_join ''/'' (drop 3 (butlast (py_split CHR ''/'' dp)))) 0 (Suc i)
                  (emit (GetBucket (py_split CHR ''/'' dp ! 2)) (emit (StorageClient pid) w)))"
  unfolding check_contents_wf [OF assms(1)]
  by (rule check_loop_match) (use assms(2-5) in \<open>simp_all add: emit_fields\<close>)

text \<open>No listing with the expected count among the first 40: the 41st listing is made, and
  whatever it holds the check raises.\<close>

lemma check_contents_never:
  assumes "3 \<le> length (py_split CHR ''/'' dp)"
    and "N \<noteq> 0"
    and "\<forall>k<40. int (length (list_blobs env (n_list w + k))) \<noteq> N"
  shows "check_contents env dp pid N w =
       Some (Inl (ValueError (timeout_message N (length (list_blobs env (n_list w + 40))) dp)),
             after_attempts (py_split CHR ''/'' dp ! 2)
                  (py_join ''/'' (drop 3 (butlast (py_split CHR ''/'' dp)))) 0 41
                  (emit (GetBucket (py_split CHR ''/'' dp ! 2)) (emit (StorageClient pid) w)))"
proof -
  let ?w = "emit (GetBucket (py_split CHR ''/'' dp ! 2)) (emit (StorageClient pid) w)"
  have "check_loop env dp (py_split CHR ''/'' dp ! 2)
          (py_join ''/'' (drop 3 (butlast (py_split CHR ''/'' dp)))) N 0 0 ?w =
        Some (Inl (ValueError (timeout_message N (length (list_blobs env (n_list ?w + 40))) dp)),
              after_attempts (py_split CHR ''/'' dp ! 2)
                  (py_join ''/'' (drop 3 (butlast (py_split CHR ''/'' dp)))) 0 (Suc 40) ?w)"
    by (rule check_loop_never) (use assms(2,3) in \<open>simp_all add: emit_fields\<close>)
  then show ?thesis
    by (simp add: check_contents_wf [OF assms(1)] emit_fields)
qed

text \<open>In particular a 41st listing that does hold the expected count is reported as a
  failure: the message then reads "expected N, found N".\<close>

lemma check_contents_match_on_41st_listing:
  assumes "3 \<le> length (py_split CHR ''/'' dp)"
    and "N \<noteq> 0"
    and "\<forall>k<40. int (length (list_blobs env (n_list w + k))) \<noteq> N"
    and "int (length (list_blobs env (n_list w + 40))) = N"
  shows "\<exists>w'. check_contents env dp pid N w =
       Some (Inl (ValueError
               (''waited 40 tries for all the etl files to be present.  expected ''
                  @ fmt_d N @ '', found '' @ fmt_d N @ '' at '' @ dp)), w')"
  using check_contents_never [OF assms(1-3), of pid] assms(4)
  by (simp add: timeout_message_def)

subsection \<open>The polling loop, round by round\<close>

lemma after_polls_0: "after_polls j 0 w = w"
  by (simp add: after_polls_def)

lemma after_polls_add: "after_polls j n (after_polls j m w) = after_polls j (m + n) w"
proof -
  have "polls_trace j m @ polls_trace j n = polls_trace j (m + n)"
    by (induction m) simp_all
  then show ?thesis by (simp add: after_polls_def)
qed

lemma poll_loop_errors:
  "errors (jobs_get env (n_get w)) = Some errs \<Longrightarrow>
   poll_loop env j w =
     Some (Inl (RuntimeError (JStr (json_dumps env errs))),
           w\<lparr>n_get := n_get w + 1,
             trace := trace w @ [JobsGet (job_projectId j) (job_jobId j) 2,
                                 Print ''Error loading table:'']\<rparr>)"
  by (subst poll_loop.simps) (simp add: Let_def emit_def)

lemma poll_loop_done_error:
  "errors (jobs_get env (n_get w)) = None \<Longrightarrow>
   state (jobs_get env (n_get w)) = Some ''DONE'' \<Longrightarrow>
   errorResult (jobs_get env (n_get w)) = Some P \<Longrightarrow>
   poll_loop env j w =
     Some (Inl (RuntimeError P),
           w\<lparr>n_get := n_get w + 1,
             trace := trace w @ [JobsGet (job_projectId j) (job_jobId j) 2]\<rparr>)"
  by (subst poll_loop.simps) (simp add: Let_def emit_def)

lemma poll_loop_done_success:
  "errors (jobs_get env (n_get w)) = None \<Longrightarrow>
   state (jobs_get env (n_get w)) = Some ''DONE'' \<Longrightarrow>
   errorResult (jobs_get env (n_get w)) = None \<Longrightarrow>
   poll_loop env j w =
     Some (Inr (),
           w\<lparr>n_get := n_get w + 1,
             trace := trace w @ [JobsGet (job_projectId j) (job_jobId j) 2,
                                 Print ''Job complete.'']\<rparr>)"
  by (subst poll_loop.simps) (simp add: Let_def emit_def)

lemma poll_loop_running:
  "still_running (jobs_get env (n_get w)) \<Longrightarrow>
   poll_loop env j w = poll_loop env j (after_polls j 1 w)"
  by (subst poll_loop.simps)
     (auto simp: still_running_def Let_def emit_def after_polls_def split: option.splits)

lemma poll_loop_skip:
  "\<forall>i<k. still_running (jobs_get env (n_get w + i)) \<Longrightarrow>
   poll_loop env j w = poll_loop env j (after_polls j k w)"
proof (induction k)
  case 0
  show ?case by (simp add: after_polls_0)
next
  case (Suc k)
  then have "poll_loop env j w = poll_loop env j (after_polls j k w)" by simp
  also have "\<dots> = poll_loop env j (after_polls j 1 (after_polls j k w))"
    using Suc.prems by (intro poll_loop_running) (simp add: after_polls_def)
  finally show ?case by (simp add: after_polls_add)
qed

subsection \<open>Submission\<close>




subsection \<open>Sleeps\<close>

lemma sleeps_append: "sleeps (es @ fs) = sleeps es @ sleeps fs"
  by (induction es rule: sleeps.induct) simp_all

lemma sleeps_attempts:
  "sleeps (concat (map (\<lambda>i. [Sleep (f i), ListBlobs b p]) is)) = map f is"
  by (induction "is") simp_all

lemma first_ten_sleeps:
  "take 10 (map (\<lambda>i. 1 + i div 10) [0..<n]) = replicate (min n 10) (1::nat)"
  by (auto simp: take_map list_eq_iff_nth_eq)

text \<open>Whenever the polling loop returns, every sleep it made lasted one second.\<close>

lemma poll_loop_sleeps:
  assumes "poll_loop env j w = Some y"
  shows "\<exists>es. trace (snd y) = trace w @ es \<and> set (sleeps es) \<subseteq> {1}"
proof (rule poll_loop.raw_induct
    [where P = "\<lambda>env j w y. \<exists>es. trace (snd y) = trace w @ es \<and> set (sleeps es) \<subseteq> {1}",
     OF _ assms])
  fix poll_loop' :: "env \<Rightarrow> job \<Rightarrow> world \<Rightarrow> ((error + unit) \<times> world) option"
  fix env :: env and j :: job and w :: world and y :: "(error + unit) \<times> world"
  let ?get = "JobsGet (job_projectId j) (job_jobId j) 2"
  let ?w1 = "(emit ?get w)\<lparr>n_get := n_get w + 1\<rparr>"
  assume IH: "\<And>env j w y. poll_loop' env j w = Some y \<Longrightarrow>
                \<exists>es. trace (snd y) = trace w @ es \<and> set (sleeps es) \<subseteq> {1}"
  assume body: "(let status = jobs_get env (n_get w); w1 = ?w1
      in case errors status of
           Some errs \<Rightarrow>
             Some (Inl (RuntimeError (JStr (json_dumps env errs))),
                   emit (Print ''Error loading table:'') w1)
         | None \<Rightarrow>
             (case state status of
                None \<Rightarrow> Some (Inl (KeyError ''state''), w1)
              | Some s \<Rightarrow>
                  if s = ''DONE'' then
                    (case errorResult status of
                       Some p \<Rightarrow> Some (Inl (RuntimeError p), w1)
                     | None \<Rightarrow> Some (Inr (), emit (Print ''Job complete.'') w1))
                  else poll_loop' env j (emit (Sleep 1) w1))) = Some y"
  show "\<exists>es. trace (snd y) = trace w @ es \<and> set (sleeps es) \<subseteq> {1}"
  proof (cases "still_running (jobs_get env (n_get w))")
    case True
    then have "poll_loop' env j (emit (Sleep 1) ?w1) = Some y"
      using body
      by (auto simp: still_running_def Let_def split: option.splits if_splits)
    from IH [OF this] obtain es where
      "trace (snd y) = trace (emit (Sleep 1) ?w1) @ es" "set (sleeps es) \<subseteq> {1}"
      by blast
    then have "trace (snd y) = trace w @ (?get # Sleep 1 # es)
               \<and> set (sleeps (?get # Sleep 1 # es)) \<subseteq> {1}"
      by (simp add: emit_def)
    then show ?thesis by blast
  next
    case False
    then have "trace (snd y) = trace w @ [?get]
             \<or> trace (snd y) = trace w @ [?get, Print ''Error loading table:'']
             \<or> trace (snd y) = trace w @ [?get, Print ''Job complete.'']"
      using body
      by (auto simp: still_running_def Let_def emit_def split: option.splits if_splits)
    then show ?thesis by (elim disjE) (rule exI, erule conjI, simp)+
  qed
qed

section \<open>The claims\<close>

lemma the_path_split:
  "py_split CHR ''/'' the_path = [''gs:'', [], ''bucket'', ''etl'', ''part.json'']"
  by (simp add: the_path_def)

text \<open>Claim C1. For every expected count \<open>N\<close>, when one of the first 40 listings (listing
  number \<open>i + 1\<close> with \<open>i < 40\<close>, the round with \<open>check_count = i\<close>) holds exactly
  \<open>N\<close> objects, \<^verbatim>\<open>__check_contents\<close> returns normally, after at most \<open>i + 1\<close>
  listings; this includes the 40th listing. The location is one that
  \<^verbatim>\<open>split('/')[2]\<close> accepts (the precondition of the readiness check); \<open>N \<ge> 0\<close>
  follows from the premise.\<close>

theorem check_contents_ready:
  assumes "3 \<le> length (py_split CHR ''/'' data_path)"
    and "i < 40"
    and "int (length (list_blobs env (n_list w + i))) = batch_count"
  shows "\<exists>w'. check_contents env data_path project_id batch_count w = Some (Inr (), w')
            \<and> n_list w' \<le> n_list w + Suc i"
proof (cases "batch_count = 0")
  case True
  then show ?thesis
    using assms(1) by (simp add: check_contents_wf check_loop_stop emit_fields)
next
  case False
  define m where "m = (LEAST k. int (length (list_blobs env (n_list w + k))) = batch_count)"
  have m: "int (length (list_blobs env (n_list w + m))) = batch_count"
    unfolding m_def using assms(3) by (rule LeastI)
  have mi: "m \<le> i"
    unfolding m_def using assms(3) by (rule Least_le)
  have least: "\<forall>k<m. int (length (list_blobs env (n_list w + k))) \<noteq> batch_count"
    unfolding m_def using not_less_Least by blast
  from mi assms(2) have "m < 40" by simp
  from check_contents_match [OF assms(1) False this least m, of project_id] mi
  show ?thesis
    by (simp add: after_attempts_def emit_fields)
qed

text \<open>The match comes on the 40th listing, the last one the cap allows.\<close>

theorem check_contents_ready_witness:
  "\<exists>w'. check_contents (stub_env late_listing two_running_then_done) the_path ''proj'' 3 world0
           = Some (Inr (), w')
        \<and> n_list w' \<le> n_list world0 + Suc 39"
  using check_contents_ready [of the_path 39 "stub_env late_listing two_running_then_done"
          world0 3 "''proj''"]
  by (simp add: the_path_split stub_env_def late_listing_def world0_def)

text \<open>Claim C2. When the first status response has an \<^verbatim>\<open>errors\<close> key, \<^verbatim>\<open>poll_job\<close>
  raises RuntimeError with the serialised errors right after that response: the trace holds
  one status call and no sleep. This holds whatever the state of that response is, so in
  particular when it is not DONE.\<close>

theorem poll_job_fails_on_first_errors:
  assumes "errors (jobs_get env (n_get w)) = Some errs"
  shows "poll_job env j w =
     Some (Inl (RuntimeError (JStr (json_dumps env errs))),
           w\<lparr>n_get := n_get w + 1,
             trace := trace w @ [Print ''Waiting for job to finish...'',
                                 JobsGet (job_projectId j) (job_jobId j) 2,
                                 Print ''Error loading table:'']\<rparr>)"
  using assms by (simp add: poll_job_def poll_loop_errors emit_fields)

theorem poll_job_fails_on_first_errors_witness:
  "poll_job (stub_env one_blob_listing errors_at_once) the_job world0 =
     Some (Inl (RuntimeError (JStr ''[]'')),
           \<lparr>n_list = 0, n_get = 1, n_uuid = 0,
            trace = [Print ''Waiting for job to finish...'', JobsGet ''p'' ''j'' 2,
                     Print ''Error loading table:'']\<rparr>)"
  using poll_job_fails_on_first_errors
          [of "stub_env one_blob_listing errors_at_once" world0 "JArr []" the_job]
  by (simp add: stub_env_def errors_at_once_def errors_first_def world0_def the_job_def)



text \<open>Claim C4. When the status service answers running, running, then DONE with neither
  \<^verbatim>\<open>errors\<close> nor \<^verbatim>\<open>errorResult\<close>, \<^verbatim>\<open>poll_job\<close> returns normally after exactly
  three status calls.\<close>

theorem poll_job_running_running_done:
  assumes "jobs_get env (n_get w) = \<lparr>errors = None, state = Some ''RUNNING'', errorResult = None\<rparr>"
    and "jobs_get env (n_get w + 1) = \<lparr>errors = None, state = Some ''RUNNING'', errorResult = None\<rparr>"
    and "jobs_get env (n_get w + 2) = \<lparr>errors = None, state = Some ''DONE'', errorResult = None\<rparr>"
  shows "poll_job env j w =
     Some (Inr (),
           w\<lparr>n_get := n_get w + 3,
             trace := trace w @ [Print ''Waiting for job to finish...'',
                                 JobsGet (job_projectId j) (job_jobId j) 2, Sleep 1,
                                 JobsGet (job_projectId j) (job_jobId j) 2, Sleep 1,
                                 JobsGet (job_projectId j) (job_jobId j) 2,
                                 Print ''Job complete.'']\<rparr>)"
proof -
  let ?w = "emit (Print ''Waiting for job to finish...'') w"
  have "\<forall>i<2. still_running (jobs_get env (n_get ?w + i))"
    using assms(1,2) by (auto simp: emit_fields still_running_def less_Suc_eq numeral_2_eq_2)
  then have "poll_loop env j ?w = poll_loop env j (after_polls j 2 ?w)"
    by (rule poll_loop_skip)
  also have "\<dots> = Some (Inr (),
       (after_polls j 2 ?w)\<lparr>n_get := n_get (after_polls j 2 ?w) + 1,
          trace := trace (after_polls j 2 ?w) @ [JobsGet (job_projectId j) (job_jobId j) 2,
                                 Print ''Job complete.'']\<rparr>)"
    by (rule poll_loop_done_success)
       (use assms(3) in \<open>simp_all add: after_polls_def emit_fields\<close>)
  finally show ?thesis
    by (simp add: poll_job_def after_polls_def emit_def numeral_2_eq_2)
qed

theorem poll_job_running_running_done_witness:
  "poll_job (stub_env one_blob_listing two_running_then_done) the_job world0 =
     Some (Inr (),
           \<lparr>n_list = 0, n_get = 3, n_uuid = 0,
            trace = [Print ''Waiting for job to finish...'',
                     JobsGet ''p'' ''j'' 2, Sleep 1,
                     JobsGet ''p'' ''j'' 2, Sleep 1,
                     JobsGet ''p'' ''j'' 2,
                     Print ''Job complete.'']\<rparr>)"
  using poll_job_running_running_done
          [of "stub_env one_blob_listing two_running_then_done" world0 the_job]
  by (simp add: stub_env_def two_running_then_done_def running_def done_success_def
        world0_def the_job_def)

text \<open>Claim C5, as stated, fails: a DONE status that carries \<^verbatim>\<open>errorResult\<close> and also an
  \<^verbatim>\<open>errors\<close> key makes \<^verbatim>\<open>poll_job\<close> raise RuntimeError with the serialised
  \<^verbatim>\<open>errors\<close> list, since that key is tested first. Here the list is empty, its
  serialisation is \<^verbatim>\<open>[]\<close>, and the payload is nowhere in the error.\<close>

theorem poll_job_done_error_counterexample:
  "poll_job (stub_env one_blob_listing running_then_failed_with_errors) the_job world0
     = Some (Inl (RuntimeError (JStr ''[]'')),
             \<lparr>n_list = 0, n_get = 2, n_uuid = 0,
              trace = [Print ''Waiting for job to finish...'',
                       JobsGet ''p'' ''j'' 2, Sleep 1,
                       JobsGet ''p'' ''j'' 2,
                       Print ''Error loading table:'']\<rparr>)
   \<and> errorResult (running_then_failed_with_errors 1) = Some (JObj [(''reason'', JStr ''invalid'')])
   \<and> state (running_then_failed_with_errors 1) = Some ''DONE''
   \<and> RuntimeError (JStr ''[]'') \<noteq> RuntimeError (JObj [(''reason'', JStr ''invalid'')])"
proof -
  let ?env = "stub_env one_blob_listing running_then_failed_with_errors"
  let ?w = "emit (Print ''Waiting for job to finish...'') world0"
  have "still_running (jobs_get ?env (n_get ?w))"
    by (simp add: stub_env_def running_then_failed_with_errors_def running_def world0_def
          still_running_def emit_fields)
  then have "poll_loop ?env the_job ?w = poll_loop ?env the_job (after_polls the_job 1 ?w)"
    by (rule poll_loop_running)
  also have "\<dots> = Some (Inl (RuntimeError (JStr (json_dumps ?env (JArr [])))),
           (after_polls the_job 1 ?w)\<lparr>n_get := n_get (after_polls the_job 1 ?w) + 1,
             trace := trace (after_polls the_job 1 ?w)
               @ [JobsGet (job_projectId the_job) (job_jobId the_job) 2,
                  Print ''Error loading table:'']\<rparr>)"
    by (rule poll_loop_errors)
       (simp add: stub_env_def running_then_failed_with_errors_def done_error_with_errors_def
          world0_def after_polls_def emit_fields)
  finally show ?thesis
    by (simp add: poll_job_def stub_env_def running_then_failed_with_errors_def
          done_error_with_errors_def world0_def after_polls_def emit_def the_job_def)
qed

text \<open>Claim C5, amended. When the responses before the \<open>k\<close>-th keep the poller going and
  the \<open>k\<close>-th has state DONE with \<^verbatim>\<open>errorResult\<close> \<open>P\<close>, \<^verbatim>\<open>poll_job\<close> raises after
  \<open>k + 1\<close> status calls; the error carries \<open>P\<close> itself when that response has no
  \<^verbatim>\<open>errors\<close> key, and the serialised \<^verbatim>\<open>errors\<close> list when it has one.\<close>

theorem poll_job_done_error:
  assumes "\<forall>i<k. still_running (jobs_get env (n_get w + i))"
    and "state (jobs_get env (n_get w + k)) = Some ''DONE''"
    and "errorResult (jobs_get env (n_get w + k)) = Some P"
  shows "\<exists>e w'. poll_job env j w = Some (Inl e, w') \<and> n_get w' = n_get w + Suc k
           \<and> e = (case errors (jobs_get env (n_get w + k)) of
                     None \<Rightarrow> RuntimeError P
                   | Some errs \<Rightarrow> RuntimeError (JStr (json_dumps env errs)))"
proof -
  let ?w = "emit (Print ''Waiting for job to finish...'') w"
  let ?wk = "after_polls j k ?w"
  have "\<forall>i<k. still_running (jobs_get env (n_get ?w + i))"
    using assms(1) by (simp add: emit_fields)
  then have skip: "poll_job env j w = poll_loop env j ?wk"
    unfolding poll_job_def by (rule poll_loop_skip)
  have nk: "n_get ?wk = n_get w + k"
    by (simp add: after_polls_def emit_fields)
  show ?thesis
  proof (cases "errors (jobs_get env (n_get w + k))")
    case None
    then have "poll_loop env j ?wk = Some (Inl (RuntimeError P),
           ?wk\<lparr>n_get := n_get ?wk + 1,
               trace := trace ?wk @ [JobsGet (job_projectId j) (job_jobId j) 2]\<rparr>)"
      using assms(2,3) by (intro poll_loop_done_error) (simp_all add: nk)
    then show ?thesis using None by (simp add: skip nk)
  next
    case (Some errs)
    then have "poll_loop env j ?wk = Some (Inl (RuntimeError (JStr (json_dumps env errs))),
           ?wk\<lparr>n_get := n_get ?wk + 1,
             trace := trace ?wk @ [JobsGet (job_projectId j) (job_jobId j) 2,
                                 Print ''Error loading table:'']\<rparr>)"
      by (intro poll_loop_errors) (simp add: nk)
    then show ?thesis using Some by (simp add: skip nk)
  qed
qed

theorem poll_job_done_error_witness:
  "\<exists>w'. poll_job (stub_env one_blob_listing running_then_failed) the_job world0
          = Some (Inl (RuntimeError (JObj [(''reason'', JStr ''invalid'')])), w')
        \<and> n_get w' = 2"
  using poll_job_done_error [of 1 "stub_env one_blob_listing running_then_failed" world0
          "JObj [(''reason'', JStr ''invalid'')]" the_job]
  by (simp add: stub_env_def running_then_failed_def running_def done_error_def world0_def
        still_running_def numeral_2_eq_2)

text \<open>Claim C6, as stated, fails for the expected count 0: \<open>cur_count\<close> starts at 0, so the
  loop is never entered and the check returns normally without listing anything, although
  every listing holds one object.\<close>

theorem check_contents_expecting_none_counterexample:
  "check_contents (stub_env one_blob_listing two_running_then_done) the_path ''proj'' 0 world0
     = Some (Inr (), \<lparr>n_list = 0, n_get = 0, n_uuid = 0,
                      trace = [StorageClient ''proj'', GetBucket ''bucket'']\<rparr>)"
  by (simp add: check_contents_def the_path_split check_loop_stop emit_def world0_def)

text \<open>Claim C6, amended. For every expected count \<open>N \<noteq> 0\<close>, when none of the first 40
  listings holds exactly \<open>N\<close> objects, \<^verbatim>\<open>__check_contents\<close> raises ValueError after the
  41st listing, and the message gives \<open>N\<close>, the count of that last listing and the
  location.\<close>

theorem check_contents_timeout:
  assumes "3 \<le> length (py_split CHR ''/'' data_path)"
    and "batch_count \<noteq> 0"
    and "\<forall>i<40. int (length (list_blobs env (n_list w + i))) \<noteq> batch_count"
  shows "\<exists>w'. check_contents env data_path project_id batch_count w =
           Some (Inl (ValueError
               (''waited 40 tries for all the etl files to be present.  expected ''
                  @ fmt_d batch_count @ '', found ''
                  @ fmt_d (int (length (list_blobs env (n_list w + 40))))
                  @ '' at '' @ data_path)), w')
            \<and> n_list w' = n_list w + 41"
  using check_contents_never [OF assms, of project_id]
  by (simp add: timeout_message_def after_attempts_def emit_fields)

theorem check_contents_timeout_witness:
  "\<exists>w'. check_contents (stub_env one_blob_listing two_running_then_done) the_path ''proj'' 3
           world0 =
           Some (Inl (ValueError
               ''waited 40 tries for all the etl files to be present.  expected 3, found 1 at gs://bucket/etl/part.json''),
                 w')
            \<and> n_list w' = 41"
  using check_contents_timeout [of the_path 3 "stub_env one_blob_listing two_running_then_done"
          world0 "''proj''"]
  by (simp add: the_path_split stub_env_def one_blob_listing_def world0_def fmt_d_def
        str_nat.simps) (simp add: the_path_def)

text \<open>Claim C7. The readiness check runs \<open>n \<le> 41\<close> rounds, numbered from 0; round \<open>i\<close>
  sleeps \<open>1 + i div 10\<close> seconds and then lists. The first ten sleeps last one second
  each.\<close>

theorem readiness_sleep_schedule:
  assumes "3 \<le> length (py_split CHR ''/'' data_path)"
  shows "\<exists>n r b p. n \<le> 41 \<and>
     check_contents env data_path project_id batch_count w =
       Some (r, w\<lparr>n_list := n_list w + n,
                  trace := trace w @ [StorageClient project_id, GetBucket b]
                    @ concat (map (\<lambda>i. [Sleep (1 + i div 10), ListBlobs b p]) [0..<n])\<rparr>)
     \<and> take 10 (sleeps (concat (map (\<lambda>i. [Sleep (1 + i div 10), ListBlobs b p]) [0..<n])))
         = replicate (min n 10) 1"
proof -
  from check_contents_shape [OF assms, of env project_id batch_count w]
  obtain r n b p where le: "n \<le> 41"
    and "check_contents env data_path project_id batch_count w =
       Some (r, after_attempts b p 0 n (emit (GetBucket b) (emit (StorageClient project_id) w)))"
    by blast
  then have res: "check_contents env data_path project_id batch_count w =
       Some (r, w\<lparr>n_list := n_list w + n,
                  trace := trace w @ [StorageClient project_id, GetBucket b]
                    @ concat (map (\<lambda>i. [Sleep (1 + i div 10), ListBlobs b p]) [0..<n])\<rparr>)"
    by (simp add: after_attempts_def emit_def attempts_trace_concat)
  have ten: "take 10 (sleeps (concat (map (\<lambda>i. [Sleep (1 + i div 10), ListBlobs b p]) [0..<n])))
         = replicate (min n 10) 1"
    by (simp only: sleeps_attempts first_ten_sleeps)
  from le res ten show ?thesis by blast
qed

theorem readiness_sleep_schedule_witness:
  "\<exists>n r b p. n \<le> 41 \<and>
     check_contents (stub_env one_blob_listing two_running_then_done) the_path ''proj'' 3 world0 =
       Some (r, world0\<lparr>n_list := n_list world0 + n,
                  trace := trace world0 @ [StorageClient ''proj'', GetBucket b]
                    @ concat (map (\<lambda>i. [Sleep (1 + i div 10), ListBlobs b p]) [0..<n])\<rparr>)
     \<and> take 10 (sleeps (concat (map (\<lambda>i. [Sleep (1 + i div 10), ListBlobs b p]) [0..<n])))
         = replicate (min n 10) 1"
  using readiness_sleep_schedule [of the_path "stub_env one_blob_listing two_running_then_done"
          "''proj''" 3 world0]
  by (simp add: the_path_split)



text \<open>Claim C9. \<^verbatim>\<open>run\<close> never reads its \<open>poll_interval\<close> parameter: two runs that differ
  in it alone give the same result and the same trace (calls, sleeps and prints). The
  sleeps of the polling loop all last one second (\<open>poll_loop_sleeps\<close>).\<close>

theorem run_ignores_poll_interval:
  "run env project_id batch_count dataset_id table_name schema_file data_path
       source_format write_disposition num_retries poll_interval w
   = run env project_id batch_count dataset_id table_name schema_file data_path
       source_format write_disposition num_retries poll_interval' w"
  by (simp add: run_def)

text \<open>Claim C10. Whatever its arguments, the job body \<^verbatim>\<open>load_table\<close> submits has
  \<^verbatim>\<open>ignoreUnknownValues\<close> true and \<^verbatim>\<open>createDisposition\<close> CREATE_IF_NEEDED.\<close>

theorem load_table_fixed_options:
  "\<exists>body. load_table env project_id dataset_id table_name source_schema source_path
              source_format num_retries write_disposition w
           = (jobs_insert env body,
              w\<lparr>n_uuid := n_uuid w + 1,
                trace := trace w @ [JobsInsert project_id body num_retries]\<rparr>)
     \<and> ignoreUnknownValues (configuration_load body) = True
     \<and> createDisposition (configuration_load body) = ''CREATE_IF_NEEDED''"
proof -
  define body where "body =
     \<lparr> jobReference = \<lparr> ref_projectId = project_id, ref_job_id = uuid4 env (n_uuid w) \<rparr>,
       configuration_load =
         \<lparr> sourceFormat = source_format, sourceUris = [source_path],
           schema_fields = source_schema,
           destinationTable =
             \<lparr> dest_projectId = project_id, dest_datasetId = dataset_id,
               dest_tableId = table_name \<rparr>,
           ignoreUnknownValues = True, createDisposition = ''CREATE_IF_NEEDED'',
           writeDisposition = write_disposition \<rparr> \<rparr>"
  have "load_table env project_id dataset_id table_name source_schema source_path
              source_format num_retries write_disposition w
           = (jobs_insert env body,
              w\<lparr>n_uuid := n_uuid w + 1,
                trace := trace w @ [JobsInsert project_id body num_retries]\<rparr>)"
    by (simp add: load_table_def Let_def emit_def body_def)
  moreover have "ignoreUnknownValues (configuration_load body) = True"
    by (simp add: body_def)
  moreover have "createDisposition (configuration_load body) = ''CREATE_IF_NEEDED''"
    by (simp add: body_def)
  ultimately show ?thesis by blast
qed

end
